theory Spec2Isabelle
  imports Main "HOL-Library.Word"
begin

section \<open>The generation page of Pixel Magic (src/pages/Index.tsx)\<close>

text \<open>
  The page is one React component. Its state is the ten \<open>useState\<close> cells of lines
  18 to 27; its behaviour is the handlers \<open>handlePromptChange\<close>, \<open>handleApiKeyChange\<close>,
  \<open>handleResendVerification\<close>, \<open>handleGenerate\<close>, \<open>handleNextTutorial\<close>, the two
  \<open>useEffect\<close> bodies and the callbacks handed to the dialog and to the purchase modal.

  The model is state passing. Every statement of a handler that is visible outside it
  (a state setter, a toast, a console message, a call of a remote service) is also
  appended to a ghost field \<open>trace\<close>, in source order, so that "no call was issued" or
  "the notice was shown once" are statements about that list.

  An \<open>async\<close> handler runs in segments: the code up to an \<open>await\<close>, then, when the
  awaited promise settles, the code up to the next one. Each segment is a function of
  the state at the moment it runs.
\<close>

subsection \<open>JavaScript strings\<close>

text \<open>
  A JavaScript string is a sequence of UTF-16 code units. \<open>js\<close> writes an ASCII
  literal of the source as such a sequence.
\<close>

type_synonym js_string = "16 word list"

definition js :: "string \<Rightarrow> js_string" where
  "js s = map of_char s"

text \<open>
  \<open>String.prototype.trim\<close> removes, at both ends, the code units that ECMAScript calls
  WhiteSpace or LineTerminator.
\<close>

definition js_whitespace :: "16 word \<Rightarrow> bool" where
  "js_whitespace c \<longleftrightarrow>
     c = 0x0009 \<or> c = 0x000A \<or> c = 0x000B \<or> c = 0x000C \<or> c = 0x000D \<or> c = 0x0020 \<or>
     c = 0x00A0 \<or> c = 0x1680 \<or> (0x2000 \<le> c \<and> c \<le> 0x200A) \<or> c = 0x2028 \<or>
     c = 0x2029 \<or> c = 0x202F \<or> c = 0x205F \<or> c = 0x3000 \<or> c = 0xFEFF"

definition js_trim :: "js_string \<Rightarrow> js_string" where
  "js_trim s = rev (dropWhile js_whitespace (rev (dropWhile js_whitespace s)))"

text \<open>\<open>hay.includes(needle)\<close>: the needle occurs as a contiguous run of code units.\<close>

fun js_startsWith :: "js_string \<Rightarrow> js_string \<Rightarrow> bool" where
  "js_startsWith hay [] = True"
| "js_startsWith [] (n # ns) = False"
| "js_startsWith (h # hs) (n # ns) = (h = n \<and> js_startsWith hs ns)"

fun js_includes :: "js_string \<Rightarrow> js_string \<Rightarrow> bool" where
  "js_includes [] needle = (needle = [])"
| "js_includes (h # hs) needle = (js_startsWith (h # hs) needle \<or> js_includes hs needle)"

subsection \<open>Values that cross the page's boundary\<close>

text \<open>
  \<open>auth.currentUser\<close> is a Firebase user or null; the page reads only its \<open>uid\<close>.
\<close>

datatype user = User (uid: js_string)

text \<open>
  What a \<open>catch\<close> clause receives: an instance of \<open>Error\<close> with its message, or any
  other thrown value (\<open>throw "text"\<close>, \<open>Promise.reject(obj)\<close>), kept as its text.
\<close>

datatype thrown = ErrorInstance js_string | NonError js_string

text \<open>
  A promise that settles is fulfilled with a value or rejected with a thrown value.
  A promise may also never settle: \<open>None\<close>.
\<close>

datatype 'a settled = Fulfilled 'a | Rejected thrown

type_synonym 'a promise = "'a settled option"

text \<open>
  \<open>Promise.all([p, q])\<close> is fulfilled with both values once both are fulfilled and
  rejected as soon as one of them is rejected, with that one's reason. When both are
  rejected the reason is the one of the promise that settled first, which the flag
  \<open>second_first\<close> decides.
\<close>

fun promise_all :: "bool \<Rightarrow> 'a promise \<Rightarrow> 'b promise \<Rightarrow> ('a \<times> 'b) promise" where
  "promise_all second_first (Some (Rejected e1)) (Some (Rejected e2)) =
     Some (Rejected (if second_first then e2 else e1))"
| "promise_all second_first (Some (Rejected e1)) q = Some (Rejected e1)"
| "promise_all second_first p (Some (Rejected e2)) = Some (Rejected e2)"
| "promise_all second_first (Some (Fulfilled a)) (Some (Fulfilled b)) = Some (Fulfilled (a, b))"
| "promise_all second_first p q = None"

datatype remote_call =
    CheckEmailVerified js_string
  | HasEnoughCredits js_string
  | GenerateImage js_string
  | SendVerificationEmail user

text \<open>
  The visible effects of the page. A toast carries its message and the \<open>duration\<close>
  option when the source gives one. \<open>SetImages img\<close> is the functional update
  \<open>setImages(prevImages => [newImage, ...prevImages])\<close>. The type \<open>'img\<close> stands for
  \<open>GeneratedImage\<close>, declared in services/imageService, which the page never inspects.
\<close>

datatype 'img effect =
    ToastError string "nat option"
  | ToastSuccess string "nat option"
  | ConsoleError string thrown
  | ConsoleLog string
  | Call remote_call
  | InitializeTogether js_string
  | SetPrompt js_string
  | SetIsGenerating bool
  | SetImages 'img
  | SetApiKey js_string
  | SetIsApiKeySet bool
  | SetIsPurchaseModalOpen bool
  | SetIsEmailVerified "bool option"
  | SetIsVerificationLoading bool
  | SetShowTutorial bool
  | SetTutorialStep nat

subsection \<open>The component state (lines 18 to 27)\<close>

record 'img state =
  prompt :: js_string
  isGenerating :: bool
  images :: "'img list"
  apiKey :: js_string
  isApiKeySet :: bool
  isPurchaseModalOpen :: bool
  isEmailVerified :: "bool option"
  isVerificationLoading :: bool
  showTutorial :: bool
  tutorialStep :: nat
  trace :: "'img effect list"

definition initial_state :: "'img state" where
  "initial_state = \<lparr> prompt = [], isGenerating = False, images = [], apiKey = [],
     isApiKeySet = False, isPurchaseModalOpen = False, isEmailVerified = None,
     isVerificationLoading = False, showTutorial = True, tutorialStep = 0, trace = [] \<rparr>"

text \<open>\<open>tutorialSteps\<close> (lines 29 to 55), each entry with its title and description.\<close>

definition tutorialSteps :: "(string \<times> string) list" where
  "tutorialSteps =
     [(''Welcome to Pixel Magic!'',
       ''Generate AI images in seconds. Let us show you how to get started.''),
      (''Step 1: Sign In'',
       ''Sign in with Google to start generating images and track your credits.''),
      (''Step 2: Enter a Prompt'',
       ''Describe what you want to see. The AI will create an image based on your prompt.''),
      (''Step 3: Generate & Download'',
       ''Click generate, then download or share your masterpiece!''),
      (''Start Creating Now!'',
       ''Get started with your free credits and join our growing community of creators.'')]"

subsection \<open>Setters and other primitive statements\<close>

definition emit :: "'img effect \<Rightarrow> 'img state \<Rightarrow> 'img state" where
  "emit e s = s\<lparr>trace := trace s @ [e]\<rparr>"

definition setPrompt :: "js_string \<Rightarrow> 'img state \<Rightarrow> 'img state" where
  "setPrompt p s = emit (SetPrompt p) (s\<lparr>prompt := p\<rparr>)"

definition setIsGenerating :: "bool \<Rightarrow> 'img state \<Rightarrow> 'img state" where
  "setIsGenerating b s = emit (SetIsGenerating b) (s\<lparr>isGenerating := b\<rparr>)"

definition setImages :: "'img \<Rightarrow> 'img state \<Rightarrow> 'img state" where
  "setImages newImage s = emit (SetImages newImage) (s\<lparr>images := newImage # images s\<rparr>)"

definition setApiKey :: "js_string \<Rightarrow> 'img state \<Rightarrow> 'img state" where
  "setApiKey k s = emit (SetApiKey k) (s\<lparr>apiKey := k\<rparr>)"

definition setIsApiKeySet :: "bool \<Rightarrow> 'img state \<Rightarrow> 'img state" where
  "setIsApiKeySet b s = emit (SetIsApiKeySet b) (s\<lparr>isApiKeySet := b\<rparr>)"

definition setIsPurchaseModalOpen :: "bool \<Rightarrow> 'img state \<Rightarrow> 'img state" where
  "setIsPurchaseModalOpen b s = emit (SetIsPurchaseModalOpen b) (s\<lparr>isPurchaseModalOpen := b\<rparr>)"

definition setIsEmailVerified :: "bool option \<Rightarrow> 'img state \<Rightarrow> 'img state" where
  "setIsEmailVerified v s = emit (SetIsEmailVerified v) (s\<lparr>isEmailVerified := v\<rparr>)"

definition setIsVerificationLoading :: "bool \<Rightarrow> 'img state \<Rightarrow> 'img state" where
  "setIsVerificationLoading b s =
     emit (SetIsVerificationLoading b) (s\<lparr>isVerificationLoading := b\<rparr>)"

definition setShowTutorial :: "bool \<Rightarrow> 'img state \<Rightarrow> 'img state" where
  "setShowTutorial b s = emit (SetShowTutorial b) (s\<lparr>showTutorial := b\<rparr>)"

definition setTutorialStep :: "nat \<Rightarrow> 'img state \<Rightarrow> 'img state" where
  "setTutorialStep n s = emit (SetTutorialStep n) (s\<lparr>tutorialStep := n\<rparr>)"

definition toast_error :: "string \<Rightarrow> nat option \<Rightarrow> 'img state \<Rightarrow> 'img state" where
  "toast_error msg duration s = emit (ToastError msg duration) s"

definition toast_success :: "string \<Rightarrow> nat option \<Rightarrow> 'img state \<Rightarrow> 'img state" where
  "toast_success msg duration s = emit (ToastSuccess msg duration) s"

definition console_error :: "string \<Rightarrow> thrown \<Rightarrow> 'img state \<Rightarrow> 'img state" where
  "console_error msg e s = emit (ConsoleError msg e) s"

definition call :: "remote_call \<Rightarrow> 'img state \<Rightarrow> 'img state" where
  "call c s = emit (Call c) s"

subsection \<open>handleGenerate (lines 137 to 245)\<close>

text \<open>The \<open>catch\<close> clause (lines 221 to 234) and the \<open>finally\<close> clause (lines 235 to 238).\<close>

definition handleGenerate_catch :: "thrown \<Rightarrow> 'img state \<Rightarrow> 'img state" where
  "handleGenerate_catch error s =
     (let s1 = console_error ''Error generating image:'' error s in
      if (case error of
            ErrorInstance message \<Rightarrow>
              \<not> js_includes message (js ''Insufficient credits'') \<and>
              \<not> js_includes message (js ''Email not verified'')
          | NonError v \<Rightarrow> False)
      then toast_error ''Failed to generate image. Please check your API key and try again.''
             (Some 4000) s1
      else s1)"

definition handleGenerate_finally :: "'img state \<Rightarrow> 'img state" where
  "handleGenerate_finally s = setIsGenerating False s"

text \<open>
  Lines 137 to 181: the guards, then the two checks are started. The values
  \<open>isGenerating\<close>, \<open>prompt\<close> and \<open>isApiKeySet\<close> are those of the render the callback
  belongs to (the dependency list of lines 239 to 245 renews it when they change);
  here that render is the state the handler is invoked in, as it is for a callback
  invoked right after a render.
  The second component is \<open>None\<close> when the handler has returned; otherwise the handler
  waits for \<open>Promise.all\<close> of the two checks, and the component holds the user they
  were issued for and the \<open>prompt\<close> of the closure, which line 210 will use.
\<close>

definition handleGenerate_start ::
    "user option \<Rightarrow> 'img state \<Rightarrow> 'img state \<times> (user \<times> js_string) option" where
  "handleGenerate_start currentUser s =
     (if isGenerating s then (s, None)
      else if js_trim (prompt s) = [] then
        (toast_error ''Please enter a prompt first'' (Some 3000) s, None)
      else if \<not> isApiKeySet s then
        (toast_error
           ''Please enter your Together AI API key first or set VITE_TOGETHER_API_KEY environment variable''
           (Some 4000) s, None)
      else
        let s1 = setIsGenerating True s in
        case currentUser of
          None \<Rightarrow>
            (setIsGenerating False
               (toast_error ''Please log in to generate images'' (Some 3000) s1), None)
        | Some user \<Rightarrow>
            (call (HasEnoughCredits (uid user)) (call (CheckEmailVerified (uid user)) s1),
             Some (user, prompt s)))"

text \<open>
  The same segment when the render the callback belongs to is no longer the current
  state: the tests of lines 139, 142 and 151 and the prompt kept for line 210 read the
  constants of that render, here \<open>render\<close>, which no setter changes, while the setters
  and notices act on the current state \<open>s\<close>.
\<close>

definition handleGenerate_start_of_render ::
    "user option \<Rightarrow> 'img state \<Rightarrow> 'img state \<Rightarrow> 'img state \<times> (user \<times> js_string) option" where
  "handleGenerate_start_of_render currentUser render s =
     (if isGenerating render then (s, None)
      else if js_trim (prompt render) = [] then
        (toast_error ''Please enter a prompt first'' (Some 3000) s, None)
      else if \<not> isApiKeySet render then
        (toast_error
           ''Please enter your Together AI API key first or set VITE_TOGETHER_API_KEY environment variable''
           (Some 4000) s, None)
      else
        let s1 = setIsGenerating True s in
        case currentUser of
          None \<Rightarrow>
            (setIsGenerating False
               (toast_error ''Please log in to generate images'' (Some 3000) s1), None)
        | Some user \<Rightarrow>
            (call (HasEnoughCredits (uid user)) (call (CheckEmailVerified (uid user)) s1),
             Some (user, prompt render)))"

text \<open>
  Lines 178 to 210: what runs when \<open>Promise.all\<close> settles. The second component is
  \<open>None\<close> when the handler has returned, and the prompt given to \<open>generateImage\<close>
  when the handler waits for it. A \<open>return\<close> inside the \<open>try\<close> runs the \<open>finally\<close>
  clause on its way out.
\<close>

definition handleGenerate_checked ::
    "js_string \<Rightarrow> (bool \<times> bool) settled \<Rightarrow> 'img state \<Rightarrow> 'img state \<times> js_string option" where
  "handleGenerate_checked prompt0 r s =
     (case r of
        Rejected error \<Rightarrow> (handleGenerate_finally (handleGenerate_catch error s), None)
      | Fulfilled (verified, hasCredits) \<Rightarrow>
          let s1 = setIsEmailVerified (Some verified) s in
          if \<not> verified then
            (handleGenerate_finally
               (setIsGenerating False
                  (toast_error ''Please verify your email before generating images''
                     (Some 4000) s1)), None)
          else if \<not> hasCredits then
            (handleGenerate_finally
               (setIsGenerating False
                  (setIsPurchaseModalOpen True
                     (toast_error ''Insufficient credits. Please purchase more to continue.''
                        (Some 4000) s1))), None)
          else (call (GenerateImage prompt0) s1, Some prompt0))"

text \<open>Lines 210 to 238: what runs when \<open>generateImage\<close> settles.\<close>

definition handleGenerate_generated :: "'img settled \<Rightarrow> 'img state \<Rightarrow> 'img state" where
  "handleGenerate_generated r s =
     (case r of
        Rejected error \<Rightarrow> handleGenerate_finally (handleGenerate_catch error s)
      | Fulfilled newImage \<Rightarrow>
          handleGenerate_finally
            (toast_success ''Image generated successfully!'' (Some 3000)
               (setImages newImage s)))"

text \<open>
  The services a handler talks to: the signed-in user, the remote operations of
  services/auth and services/imageService as the promises they return (each is awaited,
  and reports a failure by rejecting its promise), and which of the two checks settles
  first.
\<close>

record 'img env =
  auth_currentUser :: "user option"
  checkEmailVerified :: "js_string \<Rightarrow> bool promise"
  hasEnoughCredits :: "js_string \<Rightarrow> bool promise"
  generateImage :: "js_string \<Rightarrow> 'img promise"
  sendVerificationEmail :: "user \<Rightarrow> unit promise"
  creditsSettlesFirst :: bool

text \<open>
  One attempt with nothing else happening on the page in between. The result is the
  state where the handler stops and whether it has completed; it has not when a promise
  it awaits never settles.
\<close>

definition handleGenerate :: "'img env \<Rightarrow> 'img state \<Rightarrow> 'img state \<times> bool" where
  "handleGenerate env s =
     (case handleGenerate_start (auth_currentUser env) s of
        (s1, None) \<Rightarrow> (s1, True)
      | (s1, Some (user, p)) \<Rightarrow>
          (case promise_all (creditsSettlesFirst env)
                  (checkEmailVerified env (uid user)) (hasEnoughCredits env (uid user)) of
             None \<Rightarrow> (s1, False)
           | Some r \<Rightarrow>
               (case handleGenerate_checked p r s1 of
                  (s2, None) \<Rightarrow> (s2, True)
                | (s2, Some p') \<Rightarrow>
                    (case generateImage env p' of
                       None \<Rightarrow> (s2, False)
                     | Some r' \<Rightarrow> (handleGenerate_generated r' s2, True)))))"

text \<open>What a handler added to the trace, and the parts of it the claims speak about.\<close>

definition new_effects :: "'img state \<Rightarrow> 'img state \<Rightarrow> 'img effect list" where
  "new_effects s s' = drop (length (trace s)) (trace s')"

fun is_toast :: "'img effect \<Rightarrow> bool" where
  "is_toast (ToastError m d) = True"
| "is_toast (ToastSuccess m d) = True"
| "is_toast e = False"

fun is_call :: "'img effect \<Rightarrow> bool" where
  "is_call (Call c) = True"
| "is_call e = False"

fun is_generation_call :: "'img effect \<Rightarrow> bool" where
  "is_generation_call (Call (GenerateImage p)) = True"
| "is_generation_call e = False"

definition toasts :: "'img effect list \<Rightarrow> 'img effect list" where
  "toasts es = filter is_toast es"

definition calls :: "'img effect list \<Rightarrow> 'img effect list" where
  "calls es = filter is_call es"

definition generation_calls :: "'img effect list \<Rightarrow> 'img effect list" where
  "generation_calls es = filter is_generation_call es"

text \<open>One attempt, seen from outside: where it leaves the state, whether it completes,
  and what it did.\<close>

definition attempt_state :: "'img env \<Rightarrow> 'img state \<Rightarrow> 'img state" where
  "attempt_state env s = fst (handleGenerate env s)"

definition attempt_completes :: "'img env \<Rightarrow> 'img state \<Rightarrow> bool" where
  "attempt_completes env s = snd (handleGenerate env s)"

definition attempt_effects :: "'img env \<Rightarrow> 'img state \<Rightarrow> 'img effect list" where
  "attempt_effects env s = new_effects s (attempt_state env s)"

subsection \<open>handleResendVerification (lines 121 to 135) and its button (lines 257 to 284)\<close>

text \<open>
  The handler up to its \<open>await\<close>; the second component is the user whose email is being
  sent, or \<open>None\<close> when the handler has returned. Then what runs when the send settles.
\<close>

definition handleResendVerification_finally :: "'img state \<Rightarrow> 'img state" where
  "handleResendVerification_finally s = setIsVerificationLoading False s"

definition handleResendVerification_start ::
    "user option \<Rightarrow> 'img state \<Rightarrow> 'img state \<times> user option" where
  "handleResendVerification_start currentUser s =
     (let s1 = setIsVerificationLoading True s in
      case currentUser of
        Some user \<Rightarrow> (call (SendVerificationEmail user) s1, Some user)
      | None \<Rightarrow>
          (handleResendVerification_finally
             (toast_error ''Please log in to resend verification email'' None s1),
           None))"

definition handleResendVerification_sent :: "unit settled \<Rightarrow> 'img state \<Rightarrow> 'img state" where
  "handleResendVerification_sent r s =
     (case r of
        Fulfilled u \<Rightarrow> handleResendVerification_finally s
      | Rejected error \<Rightarrow>
          handleResendVerification_finally
            (console_error ''Failed to resend verification:'' error s))"

definition handleResendVerification :: "'img env \<Rightarrow> 'img state \<Rightarrow> 'img state \<times> bool" where
  "handleResendVerification env s =
     (case handleResendVerification_start (auth_currentUser env) s of
        (s1, None) \<Rightarrow> (s1, True)
      | (s1, Some user) \<Rightarrow>
          (case sendVerificationEmail env user of
             None \<Rightarrow> (s1, False)
           | Some r \<Rightarrow> (handleResendVerification_sent r s1, True)))"

text \<open>
  \<open>renderVerificationBanner\<close>: the banner exists when a user is signed in and the
  cached flag is \<open>false\<close>; its button carries \<open>disabled={isVerificationLoading}\<close> and a
  label that depends on the same flag.
\<close>

record banner =
  resend_disabled :: bool
  resend_label :: string

definition renderVerificationBanner :: "user option \<Rightarrow> 'img state \<Rightarrow> banner option" where
  "renderVerificationBanner currentUser s =
     (if currentUser \<noteq> None \<and> isEmailVerified s = Some False then
        Some \<lparr> resend_disabled = isVerificationLoading s,
               resend_label = (if isVerificationLoading s then ''Sending...'' else ''Resend Email'') \<rparr>
      else None)"

text \<open>
  Modelled from the spec: the Button component (components/ui/button) is not among the
  sources. Section 4.5 calls the resend "guarded by a busy flag"; in the page that guard
  is the \<open>disabled\<close> attribute of line 273, and a button that is absent or disabled runs
  no \<open>onClick\<close>. \<open>None\<close> is "no handler ran". The banner and its attribute are those of
  the last render, \<open>render\<close>; the handler, which reads no state, acts on the current
  state \<open>s\<close>. The user seen by the render and the one read at line 124 are separate
  reads of \<open>auth.currentUser\<close>.
\<close>

definition resendButton_click ::
    "user option \<Rightarrow> user option \<Rightarrow> 'img state \<Rightarrow> 'img state \<Rightarrow>
       ('img state \<times> user option) option" where
  "resendButton_click renderedUser currentUser render s =
     (case renderVerificationBanner renderedUser render of
        None \<Rightarrow> None
      | Some b \<Rightarrow>
          if resend_disabled b then None
          else Some (handleResendVerification_start currentUser s))"

subsection \<open>The tutorial (lines 247 to 253 and 289)\<close>

definition handleNextTutorial :: "'img state \<Rightarrow> 'img state" where
  "handleNextTutorial s =
     (if tutorialStep s < length tutorialSteps - 1 then setTutorialStep (tutorialStep s + 1) s
      else setShowTutorial False s)"

text \<open>Line 289: the dialog receives the setter itself as \<open>onOpenChange\<close>.\<close>

definition dialog_onOpenChange :: "bool \<Rightarrow> 'img state \<Rightarrow> 'img state" where
  "dialog_onOpenChange b s = setShowTutorial b s"

text \<open>The spec's view of the tutorial: the step and the flag "dismissed".\<close>

definition tutorial_view :: "'img state \<Rightarrow> nat \<times> bool" where
  "tutorial_view s = (tutorialStep s, \<not> showTutorial s)"

subsection \<open>The remaining handlers and effects\<close>

definition handlePromptChange :: "js_string \<Rightarrow> 'img state \<Rightarrow> 'img state" where
  "handlePromptChange newPrompt s = setPrompt newPrompt s"

definition handleApiKeyChange :: "js_string \<Rightarrow> 'img state \<Rightarrow> 'img state" where
  "handleApiKeyChange newApiKey s = setApiKey newApiKey s"

text \<open>Line 475: \<open>onClose\<close> of the purchase modal.\<close>

definition purchaseModal_onClose :: "'img state \<Rightarrow> 'img state" where
  "purchaseModal_onClose s = setIsPurchaseModalOpen False s"

text \<open>
  Lines 85 to 111. \<open>envApiKey\<close> is the configuration variable, absent or a string;
  \<open>init k\<close> is what \<open>initializeTogether(k)\<close> throws, if anything.
\<close>

definition apiKeyEffect ::
    "js_string option \<Rightarrow> (js_string \<Rightarrow> thrown option) \<Rightarrow> 'img state \<Rightarrow> 'img state" where
  "apiKeyEffect envApiKey init s =
     (case (case envApiKey of None \<Rightarrow> None | Some k \<Rightarrow> if k = [] then None else Some k) of
        Some k \<Rightarrow>
          (case init k of
             None \<Rightarrow>
               emit (ConsoleLog ''Using API key from environment variable'')
                 (setIsApiKeySet True (setApiKey k (emit (InitializeTogether k) s)))
           | Some error \<Rightarrow>
               toast_error ''Invalid API key in environment variable'' None
                 (console_error ''Error initializing Together client:'' error
                    (emit (InitializeTogether k) s)))
      | None \<Rightarrow>
          if apiKey s \<noteq> [] then
            (case init (apiKey s) of
               None \<Rightarrow> setIsApiKeySet True (emit (InitializeTogether (apiKey s)) s)
             | Some error \<Rightarrow>
                 setIsApiKeySet False
                   (toast_error ''Invalid API key format'' None
                      (console_error ''Error initializing Together client:'' error
                         (emit (InitializeTogether (apiKey s)) s))))
          else s)"

text \<open>
  Lines 58 to 82: \<open>checkVerification\<close> up to its \<open>await\<close>, its continuation, and the
  listener given to \<open>onAuthStateChanged\<close>. The second component is the uid whose check
  is awaited.
\<close>

definition checkVerification_start ::
    "user option \<Rightarrow> 'img state \<Rightarrow> 'img state \<times> js_string option" where
  "checkVerification_start currentUser s =
     (case currentUser of
        Some user \<Rightarrow> (call (CheckEmailVerified (uid user)) s, Some (uid user))
      | None \<Rightarrow> (setIsEmailVerified None s, None))"

definition checkVerification_settled :: "bool settled \<Rightarrow> 'img state \<Rightarrow> 'img state" where
  "checkVerification_settled r s =
     (case r of
        Fulfilled verified \<Rightarrow> setIsEmailVerified (Some verified) s
      | Rejected error \<Rightarrow> console_error ''Error checking verification status:'' error s)"

definition onAuthStateChanged ::
    "user option \<Rightarrow> user option \<Rightarrow> 'img state \<Rightarrow> 'img state \<times> js_string option" where
  "onAuthStateChanged user currentUser s =
     (case user of
        Some u \<Rightarrow> checkVerification_start currentUser s
      | None \<Rightarrow> (setIsEmailVerified None s, None))"

subsection \<open>The page as a transition system\<close>

text \<open>
  Everything that can happen to the mounted page: a callback of the view is invoked,
  an effect runs, a promise some handler awaits settles, or React renders the component
  again. Beside the current state \<open>ui\<close> the page keeps \<open>rendered\<close>, the state the last
  render was made from, and what is in flight: the attempts of \<open>handleGenerate\<close> that
  wait, the users a verification email is being sent to, the uids whose verification
  check is awaited.

  A setter changes \<open>ui\<close> at once and \<open>rendered\<close> only at the next render. The guards of
  \<open>handleGenerate\<close> and the \<open>disabled\<close> attribute of the resend button belong to the
  last render, so \<open>GenerateInvoked\<close> and \<open>ResendClick\<close> read \<open>rendered\<close>: two of them with
  no render in between see the same flags. The remaining callbacks are taken as invoked
  from a render of the current state. \<open>handleGenerate\<close> may be invoked at any
  moment, whatever its button shows; the resend handler is reached through its button
  only. A settlement is possible only for something in flight; \<open>None\<close> marks an event
  that cannot happen in that page.
\<close>

datatype 'img page_event =
    PromptChange js_string
  | ApiKeyChange js_string
  | ApiKeyEffect "js_string option" "js_string \<Rightarrow> thrown option"
  | AuthStateChanged "user option" "user option"
  | VerificationSettled js_string "bool settled"
  | ResendClick "user option" "user option"
  | SendSettled user "unit settled"
  | GenerateInvoked "user option"
  | ChecksSettled user js_string "(bool \<times> bool) settled"
  | GenerateSettled js_string "'img settled"
  | NextTutorialClick
  | DialogOpenChange bool
  | PurchaseModalClose
  | Rendered

datatype gen_pending = AwaitChecks user js_string | AwaitGenerate js_string

record 'img page =
  ui :: "'img state"
  rendered :: "'img state"
  generating :: "gen_pending list"
  sending :: "user list"
  verifying :: "js_string list"

definition initial_page :: "'img page" where
  "initial_page = \<lparr> ui = initial_state, rendered = initial_state, generating = [],
     sending = [], verifying = [] \<rparr>"

fun page_step :: "'img page_event \<Rightarrow> 'img page \<Rightarrow> 'img page option" where
  "page_step (PromptChange p) pg = Some (pg\<lparr>ui := handlePromptChange p (ui pg)\<rparr>)"
| "page_step (ApiKeyChange k) pg = Some (pg\<lparr>ui := handleApiKeyChange k (ui pg)\<rparr>)"
| "page_step (ApiKeyEffect envApiKey init) pg =
     Some (pg\<lparr>ui := apiKeyEffect envApiKey init (ui pg)\<rparr>)"
| "page_step (AuthStateChanged user currentUser) pg =
     (case onAuthStateChanged user currentUser (ui pg) of
        (s', None) \<Rightarrow> Some (pg\<lparr>ui := s'\<rparr>)
      | (s', Some i) \<Rightarrow> Some (pg\<lparr>ui := s', verifying := verifying pg @ [i]\<rparr>))"
| "page_step (VerificationSettled i r) pg =
     (if i \<in> set (verifying pg) then
        Some (pg\<lparr>ui := checkVerification_settled r (ui pg),
                 verifying := remove1 i (verifying pg)\<rparr>)
      else None)"
| "page_step (ResendClick renderedUser currentUser) pg =
     (case resendButton_click renderedUser currentUser (rendered pg) (ui pg) of
        None \<Rightarrow> None
      | Some (s', None) \<Rightarrow> Some (pg\<lparr>ui := s'\<rparr>)
      | Some (s', Some u) \<Rightarrow> Some (pg\<lparr>ui := s', sending := sending pg @ [u]\<rparr>))"
| "page_step (SendSettled u r) pg =
     (if u \<in> set (sending pg) then
        Some (pg\<lparr>ui := handleResendVerification_sent r (ui pg),
                 sending := remove1 u (sending pg)\<rparr>)
      else None)"
| "page_step (GenerateInvoked currentUser) pg =
     (case handleGenerate_start_of_render currentUser (rendered pg) (ui pg) of
        (s', None) \<Rightarrow> Some (pg\<lparr>ui := s'\<rparr>)
      | (s', Some (u, p)) \<Rightarrow>
          Some (pg\<lparr>ui := s', generating := generating pg @ [AwaitChecks u p]\<rparr>))"
| "page_step (ChecksSettled u p r) pg =
     (if AwaitChecks u p \<in> set (generating pg) then
        (case handleGenerate_checked p r (ui pg) of
           (s', None) \<Rightarrow>
             Some (pg\<lparr>ui := s', generating := remove1 (AwaitChecks u p) (generating pg)\<rparr>)
         | (s', Some p') \<Rightarrow>
             Some (pg\<lparr>ui := s',
                      generating := remove1 (AwaitChecks u p) (generating pg) @ [AwaitGenerate p']\<rparr>))
      else None)"
| "page_step (GenerateSettled p r) pg =
     (if AwaitGenerate p \<in> set (generating pg) then
        Some (pg\<lparr>ui := handleGenerate_generated r (ui pg),
                 generating := remove1 (AwaitGenerate p) (generating pg)\<rparr>)
      else None)"
| "page_step NextTutorialClick pg = Some (pg\<lparr>ui := handleNextTutorial (ui pg)\<rparr>)"
| "page_step (DialogOpenChange b) pg = Some (pg\<lparr>ui := dialog_onOpenChange b (ui pg)\<rparr>)"
| "page_step PurchaseModalClose pg = Some (pg\<lparr>ui := purchaseModal_onClose (ui pg)\<rparr>)"
| "page_step Rendered pg = Some (pg\<lparr>rendered := ui pg\<rparr>)"

fun page_run :: "'img page_event list \<Rightarrow> 'img page \<Rightarrow> 'img page option" where
  "page_run [] pg = Some pg"
| "page_run (ev # evs) pg =
     (case page_step ev pg of None \<Rightarrow> None | Some pg' \<Rightarrow> page_run evs pg')"






subsection \<open>Sample inputs\<close>

text \<open>
  The scenario of the spec's section 8 (prompt "a red fox in snow", credential set, a
  signed-in identity) and environments whose services answer the same to every call.
  Images are numbered.
\<close>

definition fox_prompt :: js_string where
  "fox_prompt = js ''a red fox in snow''"

definition sample_user :: user where
  "sample_user = User (js ''uid-1'')"

definition ready_state :: "nat state" where
  "ready_state = initial_state\<lparr>prompt := fox_prompt, apiKey := js ''key'', isApiKeySet := True,
     showTutorial := False, images := [7, 8]\<rparr>"

definition busy_state :: "nat state" where
  "busy_state = ready_state\<lparr>isGenerating := True\<rparr>"

definition blank_state :: "nat state" where
  "blank_state = ready_state\<lparr>prompt := [0x20, 0x09, 0xA0]\<rparr>"

definition constant_env ::
    "user option \<Rightarrow> bool promise \<Rightarrow> bool promise \<Rightarrow> 'img promise \<Rightarrow> 'img env" where
  "constant_env u verified credits generated =
     \<lparr> auth_currentUser = u, checkEmailVerified = (\<lambda>i. verified), hasEnoughCredits = (\<lambda>i. credits),
       generateImage = (\<lambda>p. generated), sendVerificationEmail = (\<lambda>v. Some (Fulfilled ())),
       creditsSettlesFirst = False \<rparr>"








section \<open>Properties\<close>

subsection \<open>Auxiliary facts\<close>

lemmas primitive_defs = emit_def setPrompt_def setIsGenerating_def setImages_def setApiKey_def
  setIsApiKeySet_def setIsPurchaseModalOpen_def setIsEmailVerified_def
  setIsVerificationLoading_def setShowTutorial_def setTutorialStep_def toast_error_def
  toast_success_def console_error_def call_def

lemmas generate_defs = handleGenerate_def handleGenerate_start_def handleGenerate_checked_def
  handleGenerate_generated_def handleGenerate_catch_def handleGenerate_finally_def
  handleGenerate_start_of_render_def

lemmas attempt_defs = attempt_state_def attempt_completes_def attempt_effects_def

lemmas resend_defs = handleResendVerification_def handleResendVerification_start_def
  handleResendVerification_sent_def handleResendVerification_finally_def
  resendButton_click_def renderVerificationBanner_def

lemmas other_handler_defs = handlePromptChange_def handleApiKeyChange_def
  purchaseModal_onClose_def apiKeyEffect_def checkVerification_start_def
  checkVerification_settled_def onAuthStateChanged_def handleNextTutorial_def
  dialog_onOpenChange_def

text \<open>\<open>!prompt.trim()\<close> holds exactly for the prompts made of whitespace only.\<close>

lemma all_dropWhile_iff: "(\<forall>x \<in> set (dropWhile P xs). P x) \<longleftrightarrow> (\<forall>x \<in> set xs. P x)"
  by (induction xs) auto

lemma js_trim_empty_iff: "js_trim s = [] \<longleftrightarrow> (\<forall>c \<in> set s. js_whitespace c)"
  by (simp add: js_trim_def dropWhile_eq_Nil_conv all_dropWhile_iff)

text \<open>\<open>js_includes\<close> is substring containment.\<close>

lemma js_startsWith_iff: "js_startsWith hay needle \<longleftrightarrow> (\<exists>rest. hay = needle @ rest)"
  by (induction hay needle rule: js_startsWith.induct) auto

lemma js_includes_iff: "js_includes hay needle \<longleftrightarrow> (\<exists>before after. hay = before @ needle @ after)"
proof (induction hay)
  case Nil
  then show ?case by auto
next
  case (Cons h hs)
  show ?case
  proof
    assume "js_includes (h # hs) needle"
    then consider "js_startsWith (h # hs) needle" | "js_includes hs needle" by auto
    then show "\<exists>before after. h # hs = before @ needle @ after"
    proof cases
      case 1
      then obtain rest where "h # hs = needle @ rest" by (auto simp: js_startsWith_iff)
      then have "h # hs = [] @ needle @ rest" by simp
      then show ?thesis by blast
    next
      case 2
      then obtain b a where "hs = b @ needle @ a" using Cons.IH by auto
      then have "h # hs = (h # b) @ needle @ a" by simp
      then show ?thesis by blast
    qed
  next
    assume "\<exists>before after. h # hs = before @ needle @ after"
    then obtain b a where eq: "h # hs = b @ needle @ a" by auto
    show "js_includes (h # hs) needle"
    proof (cases b)
      case Nil
      then have "js_startsWith (h # hs) needle" using eq by (auto simp: js_startsWith_iff)
      then show ?thesis by simp
    next
      case (Cons b0 bs)
      then have "hs = bs @ needle @ a" using eq by simp
      then have "js_includes hs needle" using Cons.IH by blast
      then show ?thesis by simp
    qed
  qed
qed

lemma new_effects_extend [simp]: "new_effects s (s'\<lparr>trace := trace s @ es\<rparr>) = es"
  by (simp add: new_effects_def)

lemma new_effects_self [simp]: "new_effects s s = []"
  by (simp add: new_effects_def)

text \<open>The runs of one attempt, path by path.\<close>

lemma run_busy: "isGenerating s \<Longrightarrow> handleGenerate env s = (s, True)"
  by (simp add: generate_defs)

lemma run_blank:
  "\<not> isGenerating s \<Longrightarrow> js_trim (prompt s) = [] \<Longrightarrow>
   handleGenerate env s =
     (s\<lparr>trace := trace s @ [ToastError ''Please enter a prompt first'' (Some 3000)]\<rparr>, True)"
  by (simp add: generate_defs primitive_defs)

lemma run_unverified:
  assumes "\<not> isGenerating s" "js_trim (prompt s) \<noteq> []" "isApiKeySet s"
    "auth_currentUser env = Some u" "checkEmailVerified env (uid u) = Some (Fulfilled False)"
    "hasEnoughCredits env (uid u) = Some (Fulfilled c)"
  shows "handleGenerate env s =
     (s\<lparr>isEmailVerified := Some False,
        trace := trace s @ [SetIsGenerating True, Call (CheckEmailVerified (uid u)),
          Call (HasEnoughCredits (uid u)), SetIsEmailVerified (Some False),
          ToastError ''Please verify your email before generating images'' (Some 4000),
          SetIsGenerating False, SetIsGenerating False]\<rparr>, True)"
  using assms by (simp add: generate_defs primitive_defs Let_def)

lemma run_no_credits:
  assumes "\<not> isGenerating s" "js_trim (prompt s) \<noteq> []" "isApiKeySet s"
    "auth_currentUser env = Some u" "checkEmailVerified env (uid u) = Some (Fulfilled True)"
    "hasEnoughCredits env (uid u) = Some (Fulfilled False)"
  shows "handleGenerate env s =
     (s\<lparr>isEmailVerified := Some True, isPurchaseModalOpen := True,
        trace := trace s @ [SetIsGenerating True, Call (CheckEmailVerified (uid u)),
          Call (HasEnoughCredits (uid u)), SetIsEmailVerified (Some True),
          ToastError ''Insufficient credits. Please purchase more to continue.'' (Some 4000),
          SetIsPurchaseModalOpen True, SetIsGenerating False, SetIsGenerating False]\<rparr>, True)"
  using assms by (simp add: generate_defs primitive_defs Let_def)

lemma run_success:
  assumes "\<not> isGenerating s" "js_trim (prompt s) \<noteq> []" "isApiKeySet s"
    "auth_currentUser env = Some u" "checkEmailVerified env (uid u) = Some (Fulfilled True)"
    "hasEnoughCredits env (uid u) = Some (Fulfilled True)"
    "generateImage env (prompt s) = Some (Fulfilled newImage)"
  shows "handleGenerate env s =
     (s\<lparr>isEmailVerified := Some True, images := newImage # images s,
        trace := trace s @ [SetIsGenerating True, Call (CheckEmailVerified (uid u)),
          Call (HasEnoughCredits (uid u)), SetIsEmailVerified (Some True),
          Call (GenerateImage (prompt s)), SetImages newImage,
          ToastSuccess ''Image generated successfully!'' (Some 3000),
          SetIsGenerating False]\<rparr>, True)"
  using assms by (simp add: generate_defs primitive_defs Let_def)

lemma run_generate_rejected:
  assumes "\<not> isGenerating s" "js_trim (prompt s) \<noteq> []" "isApiKeySet s"
    "auth_currentUser env = Some u" "checkEmailVerified env (uid u) = Some (Fulfilled True)"
    "hasEnoughCredits env (uid u) = Some (Fulfilled True)"
    "generateImage env (prompt s) = Some (Rejected e)"
  shows "handleGenerate env s =
     (handleGenerate_finally (handleGenerate_catch e
        (s\<lparr>isGenerating := True, isEmailVerified := Some True,
           trace := trace s @ [SetIsGenerating True, Call (CheckEmailVerified (uid u)),
             Call (HasEnoughCredits (uid u)), SetIsEmailVerified (Some True),
             Call (GenerateImage (prompt s))]\<rparr>)), True)"
  using assms
  by (simp add: handleGenerate_def handleGenerate_start_def handleGenerate_checked_def
      handleGenerate_generated_def primitive_defs Let_def)

lemma run_checks_rejected:
  assumes "\<not> isGenerating s" "js_trim (prompt s) \<noteq> []" "isApiKeySet s"
    "auth_currentUser env = Some u"
    "promise_all (creditsSettlesFirst env) (checkEmailVerified env (uid u))
       (hasEnoughCredits env (uid u)) = Some (Rejected e)"
  shows "handleGenerate env s =
     (handleGenerate_finally (handleGenerate_catch e
        (s\<lparr>isGenerating := True,
           trace := trace s @ [SetIsGenerating True, Call (CheckEmailVerified (uid u)),
             Call (HasEnoughCredits (uid u))]\<rparr>)), True)"
  using assms
  by (simp add: handleGenerate_def handleGenerate_start_def handleGenerate_checked_def
      handleGenerate_generated_def primitive_defs Let_def)

text \<open>What the \<open>catch\<close> and \<open>finally\<close> clauses show and leave behind.\<close>

lemma catch_toasts:
  "toasts (new_effects s (handleGenerate_finally (handleGenerate_catch e
      (s'\<lparr>trace := trace s @ es\<rparr>)))) =
   toasts es @
     (case e of
        ErrorInstance message \<Rightarrow>
          if js_includes message (js ''Insufficient credits'')
             \<or> js_includes message (js ''Email not verified'')
          then []
          else [ToastError ''Failed to generate image. Please check your API key and try again.''
                  (Some 4000)]
      | NonError v \<Rightarrow> [])"
  by (simp add: handleGenerate_catch_def handleGenerate_finally_def primitive_defs Let_def
      new_effects_def toasts_def split: thrown.splits)

lemma catch_finally_fields:
  "isGenerating (handleGenerate_finally (handleGenerate_catch e s)) = False"
  "images (handleGenerate_finally (handleGenerate_catch e s)) = images s"
  by (simp_all add: handleGenerate_catch_def handleGenerate_finally_def primitive_defs Let_def)

text \<open>Which segment writes which busy flag.\<close>

lemma catch_flags [simp]:
  "isGenerating (handleGenerate_catch e s) = isGenerating s"
  "isVerificationLoading (handleGenerate_catch e s) = isVerificationLoading s"
  by (simp_all add: handleGenerate_catch_def primitive_defs Let_def)

lemma start_flags:
  "isVerificationLoading (fst (handleGenerate_start c s)) = isVerificationLoading s"
  "isGenerating (fst (handleGenerate_start c s)) =
     (isGenerating s \<or> snd (handleGenerate_start c s) \<noteq> None)"
  "isGenerating s \<Longrightarrow> snd (handleGenerate_start c s) = None"
  by (simp_all add: handleGenerate_start_def primitive_defs Let_def split: option.splits)

lemma start_of_render_same:
  "handleGenerate_start_of_render c s s = handleGenerate_start c s"
  by (simp add: handleGenerate_start_of_render_def handleGenerate_start_def)


lemma start_of_render_flags:
  "isVerificationLoading (fst (handleGenerate_start_of_render c r s)) = isVerificationLoading s"
  "isGenerating (fst (handleGenerate_start_of_render c r s)) \<Longrightarrow>
     isGenerating s \<or> snd (handleGenerate_start_of_render c r s) \<noteq> None"
  "isGenerating r = isGenerating s \<Longrightarrow>
     isGenerating (fst (handleGenerate_start_of_render c r s)) =
       (isGenerating s \<or> snd (handleGenerate_start_of_render c r s) \<noteq> None)"
  by (simp_all add: handleGenerate_start_of_render_def primitive_defs Let_def
      split: option.splits if_splits)

lemma checked_flags:
  "isVerificationLoading (fst (handleGenerate_checked p r s)) = isVerificationLoading s"
  "isGenerating (fst (handleGenerate_checked p r s)) =
     (isGenerating s \<and> snd (handleGenerate_checked p r s) \<noteq> None)"
  by (simp_all add: handleGenerate_checked_def handleGenerate_finally_def primitive_defs Let_def
      split: settled.splits prod.splits)

lemma generated_flags:
  "isVerificationLoading (handleGenerate_generated r s) = isVerificationLoading s"
  "isGenerating (handleGenerate_generated r s) = False"
  by (simp_all add: handleGenerate_generated_def handleGenerate_finally_def primitive_defs
      split: settled.splits)

lemma resend_start_flags:
  "isGenerating (fst (handleResendVerification_start c s)) = isGenerating s"
  "isVerificationLoading (fst (handleResendVerification_start c s)) =
     (snd (handleResendVerification_start c s) \<noteq> None)"
  by (simp_all add: handleResendVerification_start_def handleResendVerification_finally_def
      primitive_defs Let_def split: option.splits)

lemma resend_sent_flags:
  "isGenerating (handleResendVerification_sent r s) = isGenerating s"
  "isVerificationLoading (handleResendVerification_sent r s) = False"
  by (simp_all add: handleResendVerification_sent_def handleResendVerification_finally_def
      primitive_defs split: settled.splits)

lemma resend_click_enabled:
  "resendButton_click ru cu r s = Some x \<Longrightarrow>
     \<not> isVerificationLoading r \<and> x = handleResendVerification_start cu s"
  by (simp add: resendButton_click_def renderVerificationBanner_def split: if_splits)

lemma other_flags:
  "isGenerating (handlePromptChange p s) = isGenerating s"
  "isVerificationLoading (handlePromptChange p s) = isVerificationLoading s"
  "isGenerating (handleApiKeyChange k s) = isGenerating s"
  "isVerificationLoading (handleApiKeyChange k s) = isVerificationLoading s"
  "isGenerating (apiKeyEffect e i s) = isGenerating s"
  "isVerificationLoading (apiKeyEffect e i s) = isVerificationLoading s"
  "isGenerating (fst (onAuthStateChanged a c s)) = isGenerating s"
  "isVerificationLoading (fst (onAuthStateChanged a c s)) = isVerificationLoading s"
  "isGenerating (checkVerification_settled v s) = isGenerating s"
  "isVerificationLoading (checkVerification_settled v s) = isVerificationLoading s"
  "isGenerating (handleNextTutorial s) = isGenerating s"
  "isVerificationLoading (handleNextTutorial s) = isVerificationLoading s"
  "isGenerating (dialog_onOpenChange b s) = isGenerating s"
  "isVerificationLoading (dialog_onOpenChange b s) = isVerificationLoading s"
  "isGenerating (purchaseModal_onClose s) = isGenerating s"
  "isVerificationLoading (purchaseModal_onClose s) = isVerificationLoading s"
  by (simp_all add: other_handler_defs primitive_defs split: option.splits settled.splits)

text \<open>
  The busy flag after one attempt: it is set exactly when the attempt was a re-entry
  or is still waiting.
\<close>

lemma run_flag:
  "isGenerating (fst (handleGenerate env s)) = (isGenerating s \<or> \<not> snd (handleGenerate env s))"
proof (cases "handleGenerate_start (auth_currentUser env) s")
  case (Pair s1 k)
  then have fs: "fst (handleGenerate_start (auth_currentUser env) s) = s1"
    "snd (handleGenerate_start (auth_currentUser env) s) = k"
    by simp_all
  have f1: "isGenerating s1 = (isGenerating s \<or> k \<noteq> None)"
    using start_flags(2) [where c = "auth_currentUser env" and s = s] by (simp add: fs)
  have busy: "isGenerating s \<Longrightarrow> k = None"
    using start_flags(3) [where c = "auth_currentUser env" and s = s] by (simp add: fs)
  show ?thesis
  proof (cases k)
    case None
    with Pair f1 show ?thesis by (simp add: handleGenerate_def)
  next
    case (Some up)
    obtain u p where up: "up = (u, p)" by (cases up)
    from Some busy have idle: "\<not> isGenerating s" by auto
    from Some f1 have s1: "isGenerating s1" by simp
    show ?thesis
    proof (cases "promise_all (creditsSettlesFirst env) (checkEmailVerified env (uid u))
        (hasEnoughCredits env (uid u))")
      case None
      with Pair Some up s1 idle show ?thesis by (simp add: handleGenerate_def)
    next
      case (Some r)
      obtain s2 k2 where c: "handleGenerate_checked p r s1 = (s2, k2)"
        by (cases "handleGenerate_checked p r s1")
      then have f2: "isGenerating s2 = (k2 \<noteq> None)"
        using checked_flags(2) [where p = p and r = r and s = s1] s1 by simp
      from Pair \<open>k = Some up\<close> up Some c f2 idle show ?thesis
        by (simp add: handleGenerate_def generated_flags split: option.splits)
    qed
  qed
qed

lemma promise_all_settles: "p \<noteq> None \<Longrightarrow> q \<noteq> None \<Longrightarrow> promise_all b p q \<noteq> None"
  by (cases "(b, p, q)" rule: promise_all.cases) auto

lemma run_completes:
  assumes "\<forall>i. checkEmailVerified env i \<noteq> None" and "\<forall>i. hasEnoughCredits env i \<noteq> None"
    and "\<forall>p. generateImage env p \<noteq> None"
  shows "snd (handleGenerate env s)"
proof (cases "handleGenerate_start (auth_currentUser env) s")
  case (Pair s1 k)
  show ?thesis
  proof (cases k)
    case None
    with Pair show ?thesis by (simp add: handleGenerate_def)
  next
    case (Some up)
    obtain u p where up: "up = (u, p)" by (cases up)
    from assms obtain r where r: "promise_all (creditsSettlesFirst env)
        (checkEmailVerified env (uid u)) (hasEnoughCredits env (uid u)) = Some r"
      using promise_all_settles [of "checkEmailVerified env (uid u)"
          "hasEnoughCredits env (uid u)" "creditsSettlesFirst env"]
      by auto
    obtain s2 k2 where c: "handleGenerate_checked p r s1 = (s2, k2)"
      by (cases "handleGenerate_checked p r s1")
    show ?thesis
    proof (cases k2)
      case None
      with Pair Some up r c show ?thesis by (simp add: handleGenerate_def)
    next
      case (Some p')
      from assms(3) obtain g where "generateImage env p' = Some g" by auto
      with Pair \<open>k = Some up\<close> up r c Some show ?thesis
        by (simp add: handleGenerate_def)
    qed
  qed
qed

text \<open>
  On every page reached, an attempt is in flight whenever the busy flag is true: the
  flag is set only by a segment that leaves its attempt waiting, and every attempt
  clears it when it returns.
\<close>

lemma page_step_busy_in_flight:
  assumes "isGenerating (ui pg) \<longrightarrow> generating pg \<noteq> []" and "page_step ev pg = Some pg'"
  shows "isGenerating (ui pg') \<longrightarrow> generating pg' \<noteq> []"
proof (cases ev)
  case (AuthStateChanged a c)
  have "isGenerating (fst (onAuthStateChanged a c (ui pg))) = isGenerating (ui pg)"
    by (simp add: other_flags)
  with AuthStateChanged assms show ?thesis
    by (auto split: prod.splits option.splits)
next
  case (ResendClick ru cu)
  with assms obtain x where x: "resendButton_click ru cu (rendered pg) (ui pg) = Some x"
    and pg': "pg' = (case snd x of None \<Rightarrow> pg\<lparr>ui := fst x\<rparr>
                     | Some u \<Rightarrow> pg\<lparr>ui := fst x, sending := sending pg @ [u]\<rparr>)"
    by (auto split: option.splits)
  from resend_click_enabled [OF x] have "x = handleResendVerification_start cu (ui pg)"
    by simp
  with assms(1) pg' resend_start_flags(1) [where c = cu and s = "ui pg"] show ?thesis
    by (auto split: option.splits)
next
  case (GenerateInvoked c)
  let ?h = "handleGenerate_start_of_render c (rendered pg) (ui pg)"
  from GenerateInvoked assms have pg': "pg' = (case snd ?h of
        None \<Rightarrow> pg\<lparr>ui := fst ?h\<rparr>
      | Some (u, p) \<Rightarrow> pg\<lparr>ui := fst ?h, generating := generating pg @ [AwaitChecks u p]\<rparr>)"
    by (auto split: prod.splits option.splits)
  with assms(1) start_of_render_flags(2) [where c = c and r = "rendered pg" and s = "ui pg"]
  show ?thesis
    by (auto split: option.splits)
next
  case (ChecksSettled u p r)
  let ?h = "handleGenerate_checked p r (ui pg)"
  from ChecksSettled assms have pg': "pg' = (case snd ?h of
        None \<Rightarrow> pg\<lparr>ui := fst ?h, generating := remove1 (AwaitChecks u p) (generating pg)\<rparr>
      | Some p' \<Rightarrow> pg\<lparr>ui := fst ?h,
          generating := remove1 (AwaitChecks u p) (generating pg) @ [AwaitGenerate p']\<rparr>)"
    by (auto split: prod.splits option.splits if_splits)
  with checked_flags(2) [where p = p and r = r and s = "ui pg"] show ?thesis
    by (auto split: option.splits)
next
  case (GenerateSettled p r)
  with assms show ?thesis
    by (auto simp: generated_flags split: if_splits)
qed (use assms in \<open>auto simp: other_flags resend_sent_flags split: if_splits\<close>)

lemma page_run_busy_in_flight:
  "isGenerating (ui pg) \<longrightarrow> generating pg \<noteq> [] \<Longrightarrow> page_run evs pg = Some pg' \<Longrightarrow>
   isGenerating (ui pg') \<longrightarrow> generating pg' \<noteq> []"
proof (induction evs arbitrary: pg)
  case Nil
  then show ?case by simp
next
  case (Cons ev evs)
  from Cons.prems(2) obtain pg1 where s: "page_step ev pg = Some pg1"
    and r: "page_run evs pg1 = Some pg'"
    by (auto split: option.splits)
  from page_step_busy_in_flight [OF Cons.prems(1) s] r show ?case
    by (rule Cons.IH)
qed

lemma reachable_busy_in_flight:
  "page_run evs initial_page = Some pg \<Longrightarrow> isGenerating (ui pg) \<longrightarrow> generating pg \<noteq> []"
  by (rule page_run_busy_in_flight) (simp_all add: initial_page_def initial_state_def)






text \<open>Only the tutorial's own callbacks move the tutorial.\<close>

lemma tutorial_view_next:
  "tutorial_view (handleNextTutorial s) =
     (if tutorialStep s < 4 then (tutorialStep s + 1, \<not> showTutorial s)
      else (tutorialStep s, True))"
  by (simp add: tutorial_view_def handleNextTutorial_def tutorialSteps_def primitive_defs)

lemma page_step_tutorialStep:
  assumes "page_step ev pg = Some pg'"
  shows "tutorialStep (ui pg') = tutorialStep (ui pg)
     \<or> (ev = NextTutorialClick \<and> tutorialStep (ui pg') = tutorialStep (ui pg) + 1)"
proof (cases ev)
  case (AuthStateChanged a c)
  with assms show ?thesis
    by (auto simp: other_handler_defs primitive_defs split: option.splits prod.splits)
next
  case (ResendClick ru cu)
  with assms show ?thesis
    by (auto simp: resend_defs primitive_defs Let_def split: option.splits if_splits)
next
  case (ChecksSettled u p r)
  with assms show ?thesis
    by (auto simp: generate_defs primitive_defs Let_def
        split: option.splits if_splits settled.splits prod.splits thrown.splits)
next
  case (GenerateSettled p r)
  with assms show ?thesis
    by (auto simp: generate_defs primitive_defs Let_def
        split: option.splits if_splits settled.splits thrown.splits)
next
  case (GenerateInvoked c)
  with assms show ?thesis
    by (auto simp: generate_defs primitive_defs Let_def split: option.splits if_splits)
qed (use assms in \<open>auto simp: other_handler_defs resend_defs primitive_defs
      split: option.splits if_splits settled.splits\<close>)

lemma page_step_showTutorial:
  assumes "page_step ev pg = Some pg'"
  shows "showTutorial (ui pg') = showTutorial (ui pg)
     \<or> ev = NextTutorialClick \<or> ev = DialogOpenChange (showTutorial (ui pg'))"
proof (cases ev)
  case (AuthStateChanged a c)
  with assms show ?thesis
    by (auto simp: other_handler_defs primitive_defs split: option.splits prod.splits)
next
  case (ResendClick ru cu)
  with assms show ?thesis
    by (auto simp: resend_defs primitive_defs Let_def split: option.splits if_splits)
next
  case (ChecksSettled u p r)
  with assms show ?thesis
    by (auto simp: generate_defs primitive_defs Let_def
        split: option.splits if_splits settled.splits prod.splits thrown.splits)
next
  case (GenerateSettled p r)
  with assms show ?thesis
    by (auto simp: generate_defs primitive_defs Let_def
        split: option.splits if_splits settled.splits thrown.splits)
next
  case (GenerateInvoked c)
  with assms show ?thesis
    by (auto simp: generate_defs primitive_defs Let_def split: option.splits if_splits)
qed (use assms in \<open>auto simp: other_handler_defs resend_defs primitive_defs
      split: option.splits if_splits settled.splits\<close>)

text \<open>The sample inputs.\<close>

lemma ready_state_checks:
  "\<not> isGenerating ready_state" "js_trim (prompt ready_state) \<noteq> []" "isApiKeySet ready_state"
  by (simp_all add: ready_state_def initial_state_def fox_prompt_def js_def js_trim_def
      js_whitespace_def)

lemma blank_state_checks:
  "\<not> isGenerating blank_state" "js_trim (prompt blank_state) = []"
  by (simp_all add: blank_state_def ready_state_def initial_state_def js_trim_def
      js_whitespace_def)

lemma constant_env_simps [simp]:
  "auth_currentUser (constant_env u v c g) = u"
  "checkEmailVerified (constant_env u v c g) i = v"
  "hasEnoughCredits (constant_env u v c g) i = c"
  "generateImage (constant_env u v c g) p = g"
  "sendVerificationEmail (constant_env u v c g) w = Some (Fulfilled ())"
  "creditsSettlesFirst (constant_env u v c g) = False"
  by (simp_all add: constant_env_def)







subsection \<open>The gate of handleGenerate\<close>

text \<open>
  C1. An attempt that passes the local checks (it is not a re-entry, the trimmed prompt
  is not empty, the credential is ready, a user is signed in) and whose verification
  check answers \<open>false\<close> shows exactly one notice, the one about the unverified email,
  whatever the credit check answers. It issues no generation call, never calls
  \<open>setIsPurchaseModalOpen(true)\<close>, leaves the purchase modal as it was, and completes.
\<close>

theorem unverified_email_reported_before_credits:
  assumes "\<not> isGenerating s" and "js_trim (prompt s) \<noteq> []" and "isApiKeySet s"
    and "auth_currentUser env = Some u"
    and "checkEmailVerified env (uid u) = Some (Fulfilled False)"
    and "hasEnoughCredits env (uid u) = Some (Fulfilled hasCredits)"
  shows "toasts (attempt_effects env s) =
           [ToastError ''Please verify your email before generating images'' (Some 4000)]
       \<and> generation_calls (attempt_effects env s) = []
       \<and> SetIsPurchaseModalOpen True \<notin> set (attempt_effects env s)
       \<and> isPurchaseModalOpen (attempt_state env s) = isPurchaseModalOpen s
       \<and> attempt_completes env s"
  by (simp add: run_unverified [OF assms] attempt_defs toasts_def generation_calls_def)

text \<open>The spec's case (not verified, credits sufficient) and the case where both fail.\<close>

theorem unverified_email_reported_before_credits_witness:
  "\<not> isGenerating ready_state \<and> js_trim (prompt ready_state) \<noteq> [] \<and> isApiKeySet ready_state
   \<and> toasts (attempt_effects
         (constant_env (Some sample_user) (Some (Fulfilled False)) (Some (Fulfilled True)) None)
         ready_state) =
       [ToastError ''Please verify your email before generating images'' (Some 4000)]
   \<and> toasts (attempt_effects
         (constant_env (Some sample_user) (Some (Fulfilled False)) (Some (Fulfilled False)) None)
         ready_state) =
       [ToastError ''Please verify your email before generating images'' (Some 4000)]
   \<and> generation_calls (attempt_effects
         (constant_env (Some sample_user) (Some (Fulfilled False)) (Some (Fulfilled True)) None)
         ready_state) = []"
  using ready_state_checks
    unverified_email_reported_before_credits [of ready_state
      "constant_env (Some sample_user) (Some (Fulfilled False)) (Some (Fulfilled True)) None"
      sample_user True]
    unverified_email_reported_before_credits [of ready_state
      "constant_env (Some sample_user) (Some (Fulfilled False)) (Some (Fulfilled False)) None"
      sample_user False]
  by simp

text \<open>
  As stated, C2 promises the "missing prompt" notice for every blank prompt. The guard
  of line 139 comes first: a re-entry with a blank prompt returns without any notice.
\<close>

theorem blank_prompt_while_busy_counterexample:
  "isGenerating (busy_state\<lparr>prompt := []\<rparr>)
   \<and> js_trim (prompt (busy_state\<lparr>prompt := []\<rparr>)) = []
   \<and> toasts (attempt_effects
        (constant_env (Some sample_user) (Some (Fulfilled True)) (Some (Fulfilled True)) None)
        (busy_state\<lparr>prompt := []\<rparr>)) = []"
  by (simp add: js_trim_def attempt_defs run_busy busy_state_def toasts_def)

text \<open>
  C2, amended. For every prompt that is empty or made of whitespace only, invoking
  generation issues no remote call, completes at once and leaves the busy flag, the
  gallery and every other state cell unchanged; when the busy flag is false it shows
  exactly the "missing prompt" notice, and when the flag is true it shows nothing.
\<close>

theorem blank_prompt_rejected_without_calls:
  assumes "\<forall>c \<in> set (prompt s). js_whitespace c"
  shows "calls (attempt_effects env s) = []
       \<and> toasts (attempt_effects env s) =
           (if isGenerating s then []
            else [ToastError ''Please enter a prompt first'' (Some 3000)])
       \<and> (attempt_state env s)\<lparr>trace := trace s\<rparr> = s
       \<and> attempt_completes env s"
proof (cases "isGenerating s")
  case True
  then show ?thesis
    by (simp add: run_busy attempt_defs toasts_def calls_def)
next
  case False
  moreover have "js_trim (prompt s) = []"
    using assms by (simp add: js_trim_empty_iff)
  ultimately show ?thesis
    by (simp add: run_blank attempt_defs toasts_def calls_def)
qed

theorem blank_prompt_rejected_without_calls_witness:
  "js_trim (prompt blank_state) = []
   \<and> calls (attempt_effects
        (constant_env (Some sample_user) (Some (Fulfilled True)) (Some (Fulfilled True)) None)
        blank_state) = []
   \<and> toasts (attempt_effects
        (constant_env (Some sample_user) (Some (Fulfilled True)) (Some (Fulfilled True)) None)
        blank_state) = [ToastError ''Please enter a prompt first'' (Some 3000)]"
proof -
  have "\<forall>c \<in> set (prompt blank_state). js_whitespace c"
    using blank_state_checks(2) by (simp only: js_trim_empty_iff)
  from blank_prompt_rejected_without_calls [OF this,
      of "constant_env (Some sample_user) (Some (Fulfilled True)) (Some (Fulfilled True)) None"]
  show ?thesis
    using blank_state_checks by simp
qed

text \<open>
  C7. An attempt that passes the local checks, is answered "verified" and is answered
  "not enough credits" shows exactly the notice about insufficient credits, calls
  \<open>setIsPurchaseModalOpen(true)\<close> exactly once, so that the purchase modal is open
  afterwards, issues no generation call, and completes.
\<close>

theorem insufficient_credits_opens_purchase_flow:
  assumes "\<not> isGenerating s" and "js_trim (prompt s) \<noteq> []" and "isApiKeySet s"
    and "auth_currentUser env = Some u"
    and "checkEmailVerified env (uid u) = Some (Fulfilled True)"
    and "hasEnoughCredits env (uid u) = Some (Fulfilled False)"
  shows "toasts (attempt_effects env s) =
           [ToastError ''Insufficient credits. Please purchase more to continue.'' (Some 4000)]
       \<and> count_list (attempt_effects env s) (SetIsPurchaseModalOpen True) = 1
       \<and> isPurchaseModalOpen (attempt_state env s)
       \<and> generation_calls (attempt_effects env s) = []
       \<and> attempt_completes env s"
  by (simp add: run_no_credits [OF assms] attempt_defs toasts_def generation_calls_def)

theorem insufficient_credits_opens_purchase_flow_witness:
  "\<not> isGenerating ready_state \<and> js_trim (prompt ready_state) \<noteq> [] \<and> isApiKeySet ready_state
   \<and> count_list (attempt_effects
         (constant_env (Some sample_user) (Some (Fulfilled True)) (Some (Fulfilled False)) None)
         ready_state) (SetIsPurchaseModalOpen True) = 1
   \<and> generation_calls (attempt_effects
         (constant_env (Some sample_user) (Some (Fulfilled True)) (Some (Fulfilled False)) None)
         ready_state) = []"
  using ready_state_checks
    insufficient_credits_opens_purchase_flow [of ready_state
      "constant_env (Some sample_user) (Some (Fulfilled True)) (Some (Fulfilled False)) None"
      sample_user]
  by simp

subsection \<open>The busy flag of handleGenerate\<close>




text \<open>
  C4. An attempt that starts with the busy flag false ends, on whatever path it
  completes (a local rejection, no user, unverified email, insufficient credits, a
  failure thrown by a check or by the generation call, success), with the flag false;
  and it does complete when the remote operations settle. On the page, whenever no
  attempt is in flight the flag is false.
\<close>

theorem busy_flag_cleared_on_every_exit:
  fixes s :: "'img state" and pg :: "'img page"
  assumes "\<not> isGenerating s"
  shows "(attempt_completes env s \<longrightarrow> \<not> isGenerating (attempt_state env s))
       \<and> ((\<forall>i. checkEmailVerified env i \<noteq> None) \<and> (\<forall>i. hasEnoughCredits env i \<noteq> None)
            \<and> (\<forall>p. generateImage env p \<noteq> None) \<longrightarrow> attempt_completes env s)
       \<and> (page_run evs initial_page = Some pg \<and> generating pg = [] \<longrightarrow>
            \<not> isGenerating (ui pg))"
proof (intro conjI impI)
  assume "attempt_completes env s"
  with assms show "\<not> isGenerating (attempt_state env s)"
    by (simp add: run_flag attempt_defs)
next
  assume "(\<forall>i. checkEmailVerified env i \<noteq> None) \<and> (\<forall>i. hasEnoughCredits env i \<noteq> None)
            \<and> (\<forall>p. generateImage env p \<noteq> None)"
  then show "attempt_completes env s" by (simp add: run_completes attempt_defs)
next
  assume "page_run evs initial_page = Some pg \<and> generating pg = []"
  then have "isGenerating (ui pg) \<longrightarrow> generating pg \<noteq> []" "generating pg = []"
    by (auto dest: reachable_busy_in_flight)
  then show "\<not> isGenerating (ui pg)" by simp
qed

text \<open>An attempt whose generation call fails with an \<open>Error\<close>.\<close>

theorem busy_flag_cleared_on_every_exit_witness:
  "\<not> isGenerating ready_state
   \<and> attempt_completes
        (constant_env (Some sample_user) (Some (Fulfilled True)) (Some (Fulfilled True))
           (Some (Rejected (ErrorInstance (js ''Network down''))))) ready_state
   \<and> \<not> isGenerating (attempt_state
        (constant_env (Some sample_user) (Some (Fulfilled True)) (Some (Fulfilled True))
           (Some (Rejected (ErrorInstance (js ''Network down''))))) ready_state)"
proof -
  let ?env = "constant_env (Some sample_user) (Some (Fulfilled True)) (Some (Fulfilled True))
           (Some (Rejected (ErrorInstance (js ''Network down''))))"
  have settle: "(\<forall>i. checkEmailVerified ?env i \<noteq> None) \<and> (\<forall>i. hasEnoughCredits ?env i \<noteq> None)
            \<and> (\<forall>p. generateImage ?env p \<noteq> None)"
    by simp
  from busy_flag_cleared_on_every_exit [OF ready_state_checks(1), of ?env "[]" initial_page]
    settle ready_state_checks(1)
  show ?thesis by blast
qed

subsection \<open>The gallery\<close>

text \<open>
  C5. A successful generation (local checks passed, verified, enough credits, the
  generation call fulfilled with \<open>newImage\<close>) leaves the gallery equal to \<open>newImage\<close>
  put in front of the gallery it started from: nothing is dropped, merged or moved. It
  issued exactly one generation call, with the prompt, and ends with the busy flag
  false. The last segment prepends to whatever gallery it finds when it runs.
\<close>

theorem successful_generation_prepends:
  fixes s s' :: "'img state"
  assumes "\<not> isGenerating s" and "js_trim (prompt s) \<noteq> []" and "isApiKeySet s"
    and "auth_currentUser env = Some u"
    and "checkEmailVerified env (uid u) = Some (Fulfilled True)"
    and "hasEnoughCredits env (uid u) = Some (Fulfilled True)"
    and "generateImage env (prompt s) = Some (Fulfilled newImage)"
  shows "images (attempt_state env s) = newImage # images s
       \<and> generation_calls (attempt_effects env s) = [Call (GenerateImage (prompt s))]
       \<and> \<not> isGenerating (attempt_state env s)
       \<and> attempt_completes env s
       \<and> images (handleGenerate_generated (Fulfilled newImage) s') = newImage # images s'"
  using assms(1)
  by (simp add: run_success [OF assms] attempt_defs generation_calls_def
      handleGenerate_generated_def handleGenerate_finally_def primitive_defs)

theorem successful_generation_prepends_witness:
  "\<not> isGenerating ready_state \<and> js_trim (prompt ready_state) \<noteq> [] \<and> isApiKeySet ready_state
   \<and> images ready_state = [7, 8]
   \<and> images (attempt_state
        (constant_env (Some sample_user) (Some (Fulfilled True)) (Some (Fulfilled True))
           (Some (Fulfilled 3)))
        ready_state) = [3, 7, 8]"
proof -
  have im: "images ready_state = [7, 8]"
    by (simp add: ready_state_def)
  from successful_generation_prepends [of ready_state
      "constant_env (Some sample_user) (Some (Fulfilled True)) (Some (Fulfilled True))
         (Some (Fulfilled 3))" sample_user 3]
  show ?thesis
    using ready_state_checks im by simp
qed

subsection \<open>The tutorial\<close>

text \<open>
  As stated, C6 makes "advance" the only transition of the tutorial. Line 289 hands
  \<open>setShowTutorial\<close> to the dialog as \<open>onOpenChange\<close>: when the dialog asks to close, the
  tutorial goes from step 0, shown, to step 0, dismissed, where an advance would have
  gone to step 1, shown.
\<close>

theorem tutorial_dismissed_without_advance_counterexample:
  "tutorial_view (initial_state :: nat state) = (0, False)
   \<and> tutorial_view (dialog_onOpenChange False (initial_state :: nat state)) = (0, True)
   \<and> tutorial_view (handleNextTutorial (initial_state :: nat state)) = (1, False)"
  by (simp add: tutorial_view_def dialog_onOpenChange_def handleNextTutorial_def
      tutorialSteps_def initial_state_def primitive_defs)

text \<open>
  C6, amended. From step 0 with dismissed false, four advances give step 4 with
  dismissed false and a fifth sets dismissed while the step stays 4; in general an
  advance adds one to a step below 4 and otherwise sets dismissed. Advance is the only
  event of the page that changes the step, and then by exactly one (no back, no
  skip-to). The flag "dismissed" is written by advance and by the dialog's
  \<open>onOpenChange\<close>, and by nothing else.
\<close>

theorem tutorial_advance:
  fixes s :: "'img state" and pg pg' :: "'img page"
  shows "tutorial_view ((handleNextTutorial ^^ 4) (initial_state :: 'img state)) = (4, False)
   \<and> tutorial_view ((handleNextTutorial ^^ 5) (initial_state :: 'img state)) = (4, True)
   \<and> tutorial_view (handleNextTutorial s) =
       (if tutorialStep s < 4 then (tutorialStep s + 1, \<not> showTutorial s)
        else (tutorialStep s, True))
   \<and> (page_step ev pg = Some pg' \<longrightarrow>
        tutorialStep (ui pg') = tutorialStep (ui pg)
        \<or> (ev = NextTutorialClick \<and> tutorialStep (ui pg') = tutorialStep (ui pg) + 1))
   \<and> (page_step ev pg = Some pg' \<longrightarrow>
        showTutorial (ui pg') = showTutorial (ui pg)
        \<or> ev = NextTutorialClick \<or> ev = DialogOpenChange (showTutorial (ui pg')))"
proof (intro conjI impI)
  show "tutorial_view ((handleNextTutorial ^^ 4) (initial_state :: 'img state)) = (4, False)"
    by (simp add: eval_nat_numeral tutorial_view_def handleNextTutorial_def
        tutorialSteps_def initial_state_def primitive_defs)
  show "tutorial_view ((handleNextTutorial ^^ 5) (initial_state :: 'img state)) = (4, True)"
    by (simp add: eval_nat_numeral tutorial_view_def handleNextTutorial_def
        tutorialSteps_def initial_state_def primitive_defs)
  show "tutorial_view (handleNextTutorial s) =
       (if tutorialStep s < 4 then (tutorialStep s + 1, \<not> showTutorial s)
        else (tutorialStep s, True))"
    by (rule tutorial_view_next)
next
  assume "page_step ev pg = Some pg'"
  then show "tutorialStep (ui pg') = tutorialStep (ui pg)
        \<or> (ev = NextTutorialClick \<and> tutorialStep (ui pg') = tutorialStep (ui pg) + 1)"
    by (rule page_step_tutorialStep)
next
  assume "page_step ev pg = Some pg'"
  then show "showTutorial (ui pg') = showTutorial (ui pg)
        \<or> ev = NextTutorialClick \<or> ev = DialogOpenChange (showTutorial (ui pg'))"
    by (rule page_step_showTutorial)
qed

text \<open>The first advance, and a close request of the dialog, on the page just mounted.\<close>

theorem tutorial_advance_witness:
  "page_step NextTutorialClick (initial_page :: nat page)
     = Some (initial_page\<lparr>ui := handleNextTutorial initial_state\<rparr>)
   \<and> tutorialStep (ui (initial_page :: nat page)) = 0
   \<and> tutorial_view (handleNextTutorial (initial_state :: nat state)) = (1, False)
   \<and> page_step (DialogOpenChange False) (initial_page :: nat page)
     = Some (initial_page\<lparr>ui := dialog_onOpenChange False initial_state\<rparr>)
   \<and> tutorialStep
        (ui ((initial_page :: nat page)\<lparr>ui := dialog_onOpenChange False initial_state\<rparr>)) = 0"
proof -
  have a: "page_step NextTutorialClick (initial_page :: nat page)
     = Some (initial_page\<lparr>ui := handleNextTutorial initial_state\<rparr>)"
    by (simp add: initial_page_def)
  have b: "page_step (DialogOpenChange False) (initial_page :: nat page)
     = Some (initial_page\<lparr>ui := dialog_onOpenChange False initial_state\<rparr>)"
    by (simp add: initial_page_def)
  have c: "tutorialStep (ui (initial_page :: nat page)) = 0"
    by (simp add: initial_page_def initial_state_def)
  have d: "tutorial_view (handleNextTutorial (initial_state :: nat state)) = (1, False)"
    using tutorial_advance [where s = "initial_state :: nat state"]
    by (simp add: initial_state_def)
  have e: "tutorialStep
      (ui ((initial_page :: nat page)\<lparr>ui := dialog_onOpenChange False initial_state\<rparr>)) = 0"
    using tutorial_advance [where ev = "DialogOpenChange False"
        and pg = "initial_page :: nat page"
        and pg' = "initial_page\<lparr>ui := dialog_onOpenChange False initial_state\<rparr>"] b c
    by simp
  from a b c d e show ?thesis by simp
qed

subsection \<open>Failures thrown to handleGenerate\<close>

text \<open>
  As stated, C8 promises one generic notice for every failure whose message is not one
  of the two phrases. The test of line 226 begins with \<open>error instanceof Error\<close>: a
  check that rejects with a value that is no \<open>Error\<close> produces no notice at all.
\<close>

theorem non_error_failure_unreported_counterexample:
  "promise_all False (Some (Rejected (NonError (js ''offline'')))) (Some (Fulfilled True))
     = Some (Rejected (NonError (js ''offline'')))
   \<and> toasts (attempt_effects
        (constant_env (Some sample_user) (Some (Rejected (NonError (js ''offline''))))
           (Some (Fulfilled True)) None)
        ready_state) = []"
proof -
  let ?env = "constant_env (Some sample_user) (Some (Rejected (NonError (js ''offline''))))
           (Some (Fulfilled True)) (None :: nat promise)"
  have r: "promise_all (creditsSettlesFirst ?env) (checkEmailVerified ?env (uid sample_user))
           (hasEnoughCredits ?env (uid sample_user)) = Some (Rejected (NonError (js ''offline'')))"
    by simp
  have u: "auth_currentUser ?env = Some sample_user" by simp
  show ?thesis
    by (simp add: run_checks_rejected [OF ready_state_checks u r] attempt_defs catch_toasts)
      (simp add: toasts_def)
qed

text \<open>
  C8, amended. Let an attempt pass the local checks and let \<open>e\<close> be thrown to it, by the
  remote checks or, after both passed, by the generation call. If \<open>e\<close> is an \<open>Error\<close>
  whose message contains "Insufficient credits" or "Email not verified", no notice is
  shown; if \<open>e\<close> is any other \<open>Error\<close>, exactly one notice is shown, the generic one; if
  \<open>e\<close> is not an \<open>Error\<close>, no notice is shown. In every case the attempt completes with
  the busy flag false and the gallery unchanged.
\<close>

theorem thrown_failures_classified:
  assumes "\<not> isGenerating s" and "js_trim (prompt s) \<noteq> []" and "isApiKeySet s"
    and "auth_currentUser env = Some u"
    and "promise_all (creditsSettlesFirst env) (checkEmailVerified env (uid u))
           (hasEnoughCredits env (uid u)) = Some (Rejected e)
         \<or> (checkEmailVerified env (uid u) = Some (Fulfilled True)
            \<and> hasEnoughCredits env (uid u) = Some (Fulfilled True)
            \<and> generateImage env (prompt s) = Some (Rejected e))"
  shows "toasts (attempt_effects env s) =
           (case e of
              ErrorInstance message \<Rightarrow>
                if js_includes message (js ''Insufficient credits'')
                   \<or> js_includes message (js ''Email not verified'')
                then []
                else [ToastError
                        ''Failed to generate image. Please check your API key and try again.''
                        (Some 4000)]
            | NonError v \<Rightarrow> [])
       \<and> \<not> isGenerating (attempt_state env s)
       \<and> images (attempt_state env s) = images s
       \<and> attempt_completes env s"
  using assms(5)
proof
  assume r: "promise_all (creditsSettlesFirst env) (checkEmailVerified env (uid u))
           (hasEnoughCredits env (uid u)) = Some (Rejected e)"
  show ?thesis
    by (simp add: run_checks_rejected [OF assms(1-4) r] attempt_defs catch_toasts
        catch_finally_fields) (simp add: toasts_def)
next
  assume "checkEmailVerified env (uid u) = Some (Fulfilled True)
            \<and> hasEnoughCredits env (uid u) = Some (Fulfilled True)
            \<and> generateImage env (prompt s) = Some (Rejected e)"
  then have r: "checkEmailVerified env (uid u) = Some (Fulfilled True)"
    "hasEnoughCredits env (uid u) = Some (Fulfilled True)"
    "generateImage env (prompt s) = Some (Rejected e)" by simp_all
  show ?thesis
    by (simp add: run_generate_rejected [OF assms(1-4) r] attempt_defs catch_toasts
        catch_finally_fields) (simp add: toasts_def)
qed

text \<open>A generation call that fails with an ordinary \<open>Error\<close>, and one whose message
  contains the first phrase.\<close>

theorem thrown_failures_classified_witness:
  "\<not> isGenerating ready_state \<and> js_trim (prompt ready_state) \<noteq> [] \<and> isApiKeySet ready_state
   \<and> toasts (attempt_effects
        (constant_env (Some sample_user) (Some (Fulfilled True)) (Some (Fulfilled True))
           (Some (Rejected (ErrorInstance (js ''Network down'')))))
        ready_state) =
       [ToastError ''Failed to generate image. Please check your API key and try again.''
          (Some 4000)]
   \<and> toasts (attempt_effects
        (constant_env (Some sample_user) (Some (Fulfilled True)) (Some (Fulfilled True))
           (Some (Rejected (ErrorInstance (js ''Error: Insufficient credits'')))))
        ready_state) = []"
proof -
  have a: "\<not> js_includes (js ''Network down'') (js ''Insufficient credits'')"
    "\<not> js_includes (js ''Network down'') (js ''Email not verified'')"
    "js_includes (js ''Error: Insufficient credits'') (js ''Insufficient credits'')"
    by (simp_all add: js_def)
  from thrown_failures_classified [of ready_state
      "constant_env (Some sample_user) (Some (Fulfilled True)) (Some (Fulfilled True))
           (Some (Rejected (ErrorInstance (js ''Network down''))))" sample_user
      "ErrorInstance (js ''Network down'')"]
    thrown_failures_classified [of ready_state
      "constant_env (Some sample_user) (Some (Fulfilled True)) (Some (Fulfilled True))
           (Some (Rejected (ErrorInstance (js ''Error: Insufficient credits''))))" sample_user
      "ErrorInstance (js ''Error: Insufficient credits'')"]
    ready_state_checks a
  show ?thesis by simp
qed

text \<open>
  C10. When the generation call rejects with a value that is not an \<open>Error\<close>, the
  attempt shows no notice of any kind: after the call it only logs the value and clears
  the busy flag. It completes with the flag false and the gallery unchanged.
\<close>

theorem non_error_rejection_is_only_logged:
  assumes "\<not> isGenerating s" and "js_trim (prompt s) \<noteq> []" and "isApiKeySet s"
    and "auth_currentUser env = Some u"
    and "checkEmailVerified env (uid u) = Some (Fulfilled True)"
    and "hasEnoughCredits env (uid u) = Some (Fulfilled True)"
    and "generateImage env (prompt s) = Some (Rejected (NonError v))"
  shows "attempt_effects env s =
           [SetIsGenerating True, Call (CheckEmailVerified (uid u)),
            Call (HasEnoughCredits (uid u)), SetIsEmailVerified (Some True),
            Call (GenerateImage (prompt s)),
            ConsoleError ''Error generating image:'' (NonError v), SetIsGenerating False]
       \<and> toasts (attempt_effects env s) = []
       \<and> \<not> isGenerating (attempt_state env s)
       \<and> images (attempt_state env s) = images s
       \<and> attempt_completes env s"
  by (simp add: run_generate_rejected [OF assms] attempt_defs toasts_def new_effects_def
      handleGenerate_catch_def handleGenerate_finally_def primitive_defs)

theorem non_error_rejection_is_only_logged_witness:
  "\<not> isGenerating ready_state \<and> js_trim (prompt ready_state) \<noteq> [] \<and> isApiKeySet ready_state
   \<and> toasts (attempt_effects
        (constant_env (Some sample_user) (Some (Fulfilled True)) (Some (Fulfilled True))
           (Some (Rejected (NonError (js ''quota'')))))
        ready_state) = []
   \<and> images (attempt_state
        (constant_env (Some sample_user) (Some (Fulfilled True)) (Some (Fulfilled True))
           (Some (Rejected (NonError (js ''quota'')))))
        ready_state) = images ready_state"
  using ready_state_checks
    non_error_rejection_is_only_logged [of ready_state
      "constant_env (Some sample_user) (Some (Fulfilled True)) (Some (Fulfilled True))
         (Some (Rejected (NonError (js ''quota''))))" sample_user "js ''quota''"]
  by (simp add: toasts_def)

subsection \<open>Resending the verification email\<close>




end
